theory Spec2Isabelle
  imports Complex_Main
begin

section \<open>The Solow model with human capital: transition maps and the convergence loop\<close>

text \<open>
  The notebook computes with Python floats, and Python's power turns a negative float
  with a non-integer exponent into a complex number, with which the notebook then goes
  on computing. The parameters of the model are floats and are read as real numbers.
  The states are floats or complex numbers and are read as complex numbers, a float as
  the complex number with imaginary part 0. Rounding, overflow and the values NaN and
  Infinity are outside the model. What Python does where the arithmetic is undefined is
  kept: a failing operation is a value \<open>Inl e\<close> of the sum type \<open>py_error + 'a\<close>.
\<close>

subsection \<open>Python arithmetic\<close>

text \<open>
  \<open>ZeroDivisionError\<close>: division by zero, and zero raised to a negative power.
  \<open>IndexError\<close>: a list index out of range.
  \<open>UnboundLocalError\<close>: \<open>return result\<close> when no branch has assigned \<open>result\<close>.
\<close>

datatype py_error = ZeroDivisionError | IndexError | UnboundLocalError

definition and_then :: "py_error + 'a \<Rightarrow> ('a \<Rightarrow> py_error + 'b) \<Rightarrow> py_error + 'b" where
  "and_then m f = (case m of Inl e \<Rightarrow> Inl e | Inr x \<Rightarrow> f x)"

text \<open>Python's \<open>a / b\<close>, on floats and on complex numbers.\<close>

definition py_div :: "'a::field \<Rightarrow> 'a \<Rightarrow> py_error + 'a" where
  "py_div a b = (if b = 0 then Inl ZeroDivisionError else Inr (a / b))"

text \<open>
  The angle of the point \<open>(x, y)\<close>, between \<open>-pi\<close> and \<open>pi\<close>, as the C library's
  \<open>atan2(y, x)\<close> computes it.
\<close>

definition atan2 :: "real \<Rightarrow> real \<Rightarrow> real" where
  "atan2 y x =
     (if 0 < x then arctan (y / x)
      else if x < 0 then (if 0 \<le> y then arctan (y / x) + pi else arctan (y / x) - pi)
      else if 0 < y then pi / 2
      else if y < 0 then - (pi / 2)
      else 0)"

text \<open>
  Python's \<open>a ** b\<close> for a float or complex base and a float exponent. Any base to
  the power 0 is 1; zero to a negative power raises; zero to a positive power is 0.
  Otherwise the complex power takes the length of \<open>a\<close> to the power \<open>b\<close> and
  \<open>b\<close> times the angle of \<open>a\<close>:
  \<^verbatim>\<open>vabs = hypot(a.real, a.imag); len = pow(vabs, b.real)\<close>
  \<^verbatim>\<open>at = atan2(a.imag, a.real); phase = at * b.real\<close>
  \<^verbatim>\<open>r.real = len * cos(phase); r.imag = len * sin(phase)\<close>
  The float power, which Python uses for a float base that is positive or has an
  integer exponent, is the same number: the angle is 0 for a positive base, and a
  multiple of \<open>pi\<close> for a negative base with an integer exponent.
\<close>

definition py_pow :: "complex \<Rightarrow> real \<Rightarrow> py_error + complex" where
  "py_pow a b =
     (if b = 0 then Inr 1
      else if a = 0 then (if b < 0 then Inl ZeroDivisionError else Inr 0)
      else Inr (rcis (cmod a powr b) (atan2 (Im a) (Re a) * b)))"

text \<open>Python's \<open>xs[j]\<close>: a negative index counts from the end.\<close>

definition py_get :: "'a list \<Rightarrow> int \<Rightarrow> py_error + 'a" where
  "py_get xs j =
     (if 0 \<le> j \<and> j < int (length xs) then Inr (xs ! nat j)
      else if j < 0 \<and> - int (length xs) \<le> j then Inr (xs ! nat (int (length xs) + j))
      else Inl IndexError)"

subsection \<open>The Cobb-Douglas transition map\<close>

text \<open>
  \<^verbatim>\<open>ktplus1 = (1/((1+n)*(1+g))*(sk*tilkt**alpha*tilht**phi-(n+g+delta+n*g)*tilkt) + tilkt)\<close>
  \<^verbatim>\<open>htplus1 = (1/((1+n)*(1+g))*(sh*tilkt**alpha*tilht**phi-(n+g+delta+n*g)*tilht) + tilht)\<close>
  turned into functions by \<open>lambdify\<close> and wrapped as
  \<^verbatim>\<open>kt_plus1_func(tilkt,tilht,alpha,n,g,sh,sk,delta,phi)\<close> and \<open>ht_plus1_func\<close>.
\<close>

definition kt_plus1_func ::
  "complex \<Rightarrow> complex \<Rightarrow> real \<Rightarrow> real \<Rightarrow> real \<Rightarrow> real \<Rightarrow> real \<Rightarrow> real \<Rightarrow> real \<Rightarrow> py_error + complex" where
  "kt_plus1_func tilkt tilht alpha n g sh sk delta phi =
     and_then (py_div 1 ((1 + n) * (1 + g))) (\<lambda>r.
     and_then (py_pow tilkt alpha) (\<lambda>ka.
     and_then (py_pow tilht phi) (\<lambda>hp.
       Inr (of_real r * (of_real sk * ka * hp - of_real (n + g + delta + n * g) * tilkt) + tilkt))))"

definition ht_plus1_func ::
  "complex \<Rightarrow> complex \<Rightarrow> real \<Rightarrow> real \<Rightarrow> real \<Rightarrow> real \<Rightarrow> real \<Rightarrow> real \<Rightarrow> real \<Rightarrow> py_error + complex" where
  "ht_plus1_func tilkt tilht alpha n g sh sk delta phi =
     and_then (py_div 1 ((1 + n) * (1 + g))) (\<lambda>r.
     and_then (py_pow tilkt alpha) (\<lambda>ka.
     and_then (py_pow tilht phi) (\<lambda>hp.
       Inr (of_real r * (of_real sh * ka * hp - of_real (n + g + delta + n * g) * tilht) + tilht))))"

subsection \<open>The CES transition map\<close>

text \<open>
  \<^verbatim>\<open>def kt1(tilkt,tilht,sk,alpha,phi,sigma,n,g,delta):\<close>
  \<^verbatim>\<open>  return (1/((1+n)*(1+g)))*(sk*(alpha*tilkt**((sigma-1)/sigma)+phi*tilht**((sigma-1)/sigma)\<close>
  \<^verbatim>\<open>         +(1-alpha-phi))**(sigma/(sigma-1))-(n+g+delta+n*g)*tilkt+tilkt)\<close>
  \<^verbatim>\<open>def ht1(tilkt,tilht,sh,alpha,phi,sigma,n,g,delta):\<close>
  \<^verbatim>\<open>  return (1/((1+n)*(1+g)))*(sh*(alpha*tilkt**((sigma-1)/sigma)+phi*tilht**((sigma-1)/sigma)\<close>
  \<^verbatim>\<open>         +(1-alpha-phi))**(sigma/(sigma-1))-(n+g+delta+n*g)*tilht)+tilht\<close>
  In \<open>kt1\<close> the closing parenthesis of the factor comes after \<open>+tilkt\<close>; in \<open>ht1\<close> it
  comes before \<open>+tilht\<close>.
\<close>

definition ces_Z :: "complex \<Rightarrow> complex \<Rightarrow> real \<Rightarrow> real \<Rightarrow> real \<Rightarrow> py_error + complex" where
  "ces_Z tilkt tilht alpha phi sigma =
     and_then (py_div (sigma - 1) sigma) (\<lambda>e1.
     and_then (py_pow tilkt e1) (\<lambda>kp.
     and_then (py_div (sigma - 1) sigma) (\<lambda>e2.
     and_then (py_pow tilht e2) (\<lambda>hp.
       Inr (of_real alpha * kp + of_real phi * hp + of_real (1 - alpha - phi))))))"

definition kt1 ::
  "complex \<Rightarrow> complex \<Rightarrow> real \<Rightarrow> real \<Rightarrow> real \<Rightarrow> real \<Rightarrow> real \<Rightarrow> real \<Rightarrow> real \<Rightarrow> py_error + complex" where
  "kt1 tilkt tilht sk alpha phi sigma n g delta =
     and_then (py_div 1 ((1 + n) * (1 + g))) (\<lambda>r.
     and_then (ces_Z tilkt tilht alpha phi sigma) (\<lambda>z.
     and_then (py_div sigma (sigma - 1)) (\<lambda>e.
     and_then (py_pow z e) (\<lambda>y.
       Inr (of_real r * (of_real sk * y - of_real (n + g + delta + n * g) * tilkt + tilkt))))))"

definition ht1 ::
  "complex \<Rightarrow> complex \<Rightarrow> real \<Rightarrow> real \<Rightarrow> real \<Rightarrow> real \<Rightarrow> real \<Rightarrow> real \<Rightarrow> real \<Rightarrow> py_error + complex" where
  "ht1 tilkt tilht sh alpha phi sigma n g delta =
     and_then (py_div 1 ((1 + n) * (1 + g))) (\<lambda>r.
     and_then (ces_Z tilkt tilht alpha phi sigma) (\<lambda>z.
     and_then (py_div sigma (sigma - 1)) (\<lambda>e.
     and_then (py_pow z e) (\<lambda>y.
       Inr (of_real r * (of_real sh * y - of_real (n + g + delta + n * g) * tilht) + tilht)))))"

subsection \<open>The closed-form steady state\<close>

text \<open>
  \<open>ktilstar\<close> and \<open>htilstar\<close> are the two components of \<open>ss_sol[0]\<close>, the solution
  that \<open>sm.solve\<close> returns and the notebook prints:
  \<^verbatim>\<open>ktilstar = sh**(-phi/(phi+alpha-1)) * (sk**(phi-1)*(delta+g*n+g+n))**(1/(phi+alpha-1))\<close>
  \<^verbatim>\<open>htilstar = (ktilstar**(-alpha) * (delta+g*n+g+n)/sh)**(1/(phi-1))\<close>
  with the argument order of \<^verbatim>\<open>sm.lambdify((sh,phi,alpha,sk,delta,g,n), ...)\<close>.
\<close>

definition ktilstar_sol ::
  "real \<Rightarrow> real \<Rightarrow> real \<Rightarrow> real \<Rightarrow> real \<Rightarrow> real \<Rightarrow> real \<Rightarrow> py_error + complex" where
  "ktilstar_sol sh phi alpha sk delta g n =
     and_then (py_div (- phi) (phi + alpha - 1)) (\<lambda>e1.
     and_then (py_pow (of_real sh) e1) (\<lambda>a.
     and_then (py_pow (of_real sk) (phi - 1)) (\<lambda>b.
     and_then (py_div 1 (phi + alpha - 1)) (\<lambda>e2.
     and_then (py_pow (b * of_real (delta + g * n + g + n)) e2) (\<lambda>c.
       Inr (a * c))))))"

definition htilstar_sol ::
  "real \<Rightarrow> real \<Rightarrow> real \<Rightarrow> real \<Rightarrow> real \<Rightarrow> real \<Rightarrow> real \<Rightarrow> py_error + complex" where
  "htilstar_sol sh phi alpha sk delta g n =
     and_then (ktilstar_sol sh phi alpha sk delta g n) (\<lambda>ks.
     and_then (py_pow ks (- alpha)) (\<lambda>a.
     and_then (py_div (a * of_real (delta + g * n + g + n)) (of_real sh)) (\<lambda>b.
     and_then (py_div 1 (phi - 1)) (\<lambda>e.
       py_pow b e))))"

text \<open>
  The specification's \<open>steady_state(parameters)\<close> and its Cobb-Douglas
  \<open>transition_map(state, parameters)\<close> on states: the pair of the two solutions, and the
  pair of the two maps.
\<close>

definition steady_state ::
  "real \<Rightarrow> real \<Rightarrow> real \<Rightarrow> real \<Rightarrow> real \<Rightarrow> real \<Rightarrow> real \<Rightarrow> py_error + complex \<times> complex" where
  "steady_state sh phi alpha sk delta g n =
     and_then (ktilstar_sol sh phi alpha sk delta g n) (\<lambda>ks.
     and_then (htilstar_sol sh phi alpha sk delta g n) (\<lambda>hs.
       Inr (ks, hs)))"

definition transition_map_CD ::
  "complex \<times> complex \<Rightarrow> real \<Rightarrow> real \<Rightarrow> real \<Rightarrow> real \<Rightarrow> real \<Rightarrow> real \<Rightarrow> real \<Rightarrow> py_error + complex \<times> complex" where
  "transition_map_CD s alpha n g sh sk delta phi =
     and_then (kt_plus1_func (fst s) (snd s) alpha n g sh sk delta phi) (\<lambda>k'.
     and_then (ht_plus1_func (fst s) (snd s) alpha n g sh sk delta phi) (\<lambda>h'.
       Inr (k', h')))"

subsection \<open>The convergence loop\<close>

text \<open>
  The four warnings that \<open>interact_CD\<close> and \<open>interact_CES\<close> display instead of
  iterating: both sums too large, \<open>alpha + phi\<close> too large, \<open>s_H + s_K\<close> too large, and
  the stability constraint.
\<close>

datatype warning = Shares_and_savings | Shares | Savings | Stability

text \<open>
  What a call ends with. \<open>Rejected\<close>: a warning was displayed, no list was built.
  \<open>Converged\<close>: "Convergence archieved!" and the plot of the two lists.
  \<open>NotConverged\<close>: "No convergence archieved". \<open>Raised\<close>: an exception left the
  function. The two lists are the local lists of capital and of human capital as they
  stand at that moment. The plotting functions \<open>create_cd_plot\<close> and
  \<open>create_ces_plot\<close> are not modelled.
\<close>

datatype result =
    Rejected warning
  | Converged "complex list" "complex list"
  | NotConverged "complex list" "complex list"
  | Raised py_error "complex list" "complex list"

fun k_list :: "result \<Rightarrow> complex list" where
  "k_list (Rejected w) = []"
| "k_list (Converged ks hs) = ks"
| "k_list (NotConverged ks hs) = ks"
| "k_list (Raised e ks hs) = ks"

fun h_list :: "result \<Rightarrow> complex list" where
  "h_list (Rejected w) = []"
| "h_list (Converged ks hs) = hs"
| "h_list (NotConverged ks hs) = hs"
| "h_list (Raised e ks hs) = hs"

fun is_convergence_result :: "result \<Rightarrow> bool" where
  "is_convergence_result (Converged ks hs) = True"
| "is_convergence_result (NotConverged ks hs) = True"
| "is_convergence_result r = False"

fun is_rejected :: "result \<Rightarrow> bool" where
  "is_rejected (Rejected w) = True"
| "is_rejected r = False"

definition or_raise :: "py_error + 'a \<Rightarrow> complex list \<Rightarrow> complex list \<Rightarrow> ('a \<Rightarrow> result) \<Rightarrow> result" where
  "or_raise m ks hs f = (case m of Inl e \<Rightarrow> Raised e ks hs | Inr x \<Rightarrow> f x)"

text \<open>
  The \<open>while\<close> loop of \<open>interact_CD\<close> and \<open>interact_CES\<close>, which differ in the two
  maps only; \<open>tol\<close> stands for the literal \<open>0.00001\<close>, \<open>M\<close> for the literal
  \<open>10000\<close> and \<open>M - 1\<close> for the literal \<open>9999\<close>:
  \<^verbatim>\<open>while i<10000:\<close>
  \<^verbatim>\<open>    if ((np.abs(h[-1]-h[-2])<0.00001) & (np.abs(k[-1]-k[-2])<0.00001)): ... break\<close>
  \<^verbatim>\<open>    elif i==9999: ... break\<close>
  \<^verbatim>\<open>    else:\<close>
  \<^verbatim>\<open>        k.append(kf(k[i],h[i])); h.append(hf(k[i],h[i])); i += 1\<close>
  \<^verbatim>\<open>return result\<close>
  \<open>np.abs\<close> of a float or a complex number is its modulus.
\<close>

function while_loop ::
  "real \<Rightarrow> nat \<Rightarrow> (complex \<Rightarrow> complex \<Rightarrow> py_error + complex) \<Rightarrow>
   (complex \<Rightarrow> complex \<Rightarrow> py_error + complex) \<Rightarrow>
   complex list \<Rightarrow> complex list \<Rightarrow> nat \<Rightarrow> result" where
  "while_loop tol M kf hf ks hs i =
     (if i < M then
        (case py_get hs (- 1) of Inl e \<Rightarrow> Raised e ks hs | Inr h1 \<Rightarrow>
        (case py_get hs (- 2) of Inl e \<Rightarrow> Raised e ks hs | Inr h2 \<Rightarrow>
        (case py_get ks (- 1) of Inl e \<Rightarrow> Raised e ks hs | Inr k1 \<Rightarrow>
        (case py_get ks (- 2) of Inl e \<Rightarrow> Raised e ks hs | Inr k2 \<Rightarrow>
           if cmod (h1 - h2) < tol \<and> cmod (k1 - k2) < tol then Converged ks hs
           else if i = M - 1 then NotConverged ks hs
           else
             (case and_then (py_get ks (int i)) (\<lambda>k. and_then (py_get hs (int i)) (kf k))
              of Inl e \<Rightarrow> Raised e ks hs | Inr k' \<Rightarrow>
             (case and_then (py_get (ks @ [k']) (int i)) (\<lambda>k. and_then (py_get hs (int i)) (hf k))
              of Inl e \<Rightarrow> Raised e (ks @ [k']) hs | Inr h' \<Rightarrow>
                while_loop tol M kf hf (ks @ [k']) (hs @ [h']) (i + 1)))))))
      else Raised UnboundLocalError ks hs)"
  by pat_completeness auto
termination
  by (relation "measure (\<lambda>(tol, M, kf, hf, ks, hs, i). M - i)") auto

text \<open>
  The \<open>else\<close> branch of \<open>interact_CD\<close> and \<open>interact_CES\<close>: the lists start with the
  initial values, the first application of the maps is appended, and the loop starts
  at \<open>i = 1\<close>.
\<close>

definition simulate ::
  "real \<Rightarrow> nat \<Rightarrow> (complex \<Rightarrow> complex \<Rightarrow> py_error + complex) \<Rightarrow>
   (complex \<Rightarrow> complex \<Rightarrow> py_error + complex) \<Rightarrow>
   complex \<Rightarrow> complex \<Rightarrow> result" where
  "simulate tol M kf hf k0 h0 =
     or_raise (and_then (py_get [k0] 0) (\<lambda>k. and_then (py_get [h0] 0) (kf k))) [k0] [h0] (\<lambda>k1.
     or_raise (and_then (py_get [k0, k1] 0) (\<lambda>k. and_then (py_get [h0] 0) (hf k))) [k0, k1] [h0] (\<lambda>h1.
       while_loop tol M kf hf [k0, k1] [h0, h1] 1))"

text \<open>\<open>interact_CD\<close> with the two literals of its loop as parameters.\<close>

definition run_CD ::
  "real \<Rightarrow> nat \<Rightarrow> complex \<Rightarrow> complex \<Rightarrow> real \<Rightarrow> real \<Rightarrow> real \<Rightarrow> real \<Rightarrow> real \<Rightarrow> real \<Rightarrow> real \<Rightarrow> result" where
  "run_CD tol M k0 h0 sk sh alpha phi n g delta =
     (if sk + sh \<ge> 1 \<and> alpha + phi \<ge> 1 then Rejected Shares_and_savings
      else if alpha + phi \<ge> 1 then Rejected Shares
      else if sk + sh \<ge> 1 then Rejected Savings
      else if n + g + delta + n * g \<le> 0 then Rejected Stability
      else simulate tol M
             (\<lambda>k h. kt_plus1_func k h alpha n g sh sk delta phi)
             (\<lambda>k h. ht_plus1_func k h alpha n g sh sk delta phi) k0 h0)"

definition interact_CD ::
  "complex \<Rightarrow> complex \<Rightarrow> real \<Rightarrow> real \<Rightarrow> real \<Rightarrow> real \<Rightarrow> real \<Rightarrow> real \<Rightarrow> real \<Rightarrow> result" where
  "interact_CD k0 h0 sk sh alpha phi n g delta =
     run_CD (1 / 100000) 10000 k0 h0 sk sh alpha phi n g delta"

text \<open>\<open>interact_CES\<close> likewise; its stability test is \<^verbatim>\<open>(n + g + delta) == 0\<close>.\<close>

definition run_CES ::
  "real \<Rightarrow> nat \<Rightarrow> complex \<Rightarrow> complex \<Rightarrow> real \<Rightarrow> real \<Rightarrow> real \<Rightarrow> real \<Rightarrow> real \<Rightarrow> real \<Rightarrow> real \<Rightarrow> real \<Rightarrow> result" where
  "run_CES tol M k0 h0 sk sh alpha phi sigma n g delta =
     (if sk + sh \<ge> 1 \<and> alpha + phi \<ge> 1 then Rejected Shares_and_savings
      else if alpha + phi \<ge> 1 then Rejected Shares
      else if sk + sh \<ge> 1 then Rejected Savings
      else if n + g + delta = 0 then Rejected Stability
      else simulate tol M
             (\<lambda>k h. kt1 k h sk alpha phi sigma n g delta)
             (\<lambda>k h. ht1 k h sh alpha phi sigma n g delta) k0 h0)"

definition interact_CES ::
  "complex \<Rightarrow> complex \<Rightarrow> real \<Rightarrow> real \<Rightarrow> real \<Rightarrow> real \<Rightarrow> real \<Rightarrow> real \<Rightarrow> real \<Rightarrow> real \<Rightarrow> result" where
  "interact_CES k0 h0 sk sh alpha phi sigma n g delta =
     run_CES (1 / 100000) 10000 k0 h0 sk sh alpha phi sigma n g delta"

subsection \<open>Notions of the specification\<close>

text \<open>
  The invariants of ModelParameters as the specification lists them. The code has no
  such type: what it checks itself is the \<open>if\<close> chain of \<open>run_CD\<close> and \<open>run_CES\<close>.
\<close>

definition valid_parameters :: "real \<Rightarrow> real \<Rightarrow> real \<Rightarrow> real \<Rightarrow> real \<Rightarrow> real \<Rightarrow> real \<Rightarrow> bool" where
  "valid_parameters sk sh alpha phi n g delta =
     (0 < sk \<and> 0 < sh \<and> sk + sh < 1 \<and> 0 < alpha \<and> 0 < phi \<and> alpha + phi < 1 \<and>
      0 < n + g + delta + n * g)"

text \<open>
  The tolerance test on position \<open>j\<close> of the two lists: both coordinates moved by less
  than \<open>tol\<close>, in modulus, from position \<open>j - 1\<close>.
\<close>

definition settled :: "real \<Rightarrow> complex list \<Rightarrow> complex list \<Rightarrow> nat \<Rightarrow> bool" where
  "settled tol ks hs j =
     (cmod (hs ! j - hs ! (j - 1)) < tol \<and> cmod (ks ! j - ks ! (j - 1)) < tol)"

text \<open>
  The two lists are an orbit of the maps: equally long, not empty, and every state but
  the first is the image of the state before it.
\<close>

fun orbit ::
  "(complex \<Rightarrow> complex \<Rightarrow> py_error + complex) \<Rightarrow>
   (complex \<Rightarrow> complex \<Rightarrow> py_error + complex) \<Rightarrow>
   complex list \<Rightarrow> complex list \<Rightarrow> bool" where
  "orbit kf hf [k] [h] = True"
| "orbit kf hf (k # k' # ks) (h # h' # hs) =
     (kf k h = Inr k' \<and> hf k h = Inr h' \<and> orbit kf hf (k' # ks) (h' # hs))"
| "orbit kf hf ks hs = False"

section \<open>Properties\<close>

lemma and_then_Inr [simp]: "and_then (Inr x) f = f x"
  by (simp add: and_then_def)

lemma and_then_Inl [simp]: "and_then (Inl e) f = Inl e"
  by (simp add: and_then_def)

lemma or_raise_Inr [simp]: "or_raise (Inr x) ks hs f = f x"
  by (simp add: or_raise_def)

lemma or_raise_Inl [simp]: "or_raise (Inl e) ks hs f = Raised e ks hs"
  by (simp add: or_raise_def)

lemma py_div_nonzero [simp]: "b \<noteq> 0 \<Longrightarrow> py_div a b = Inr (a / b)"
  by (simp add: py_div_def)

lemma py_div_zero [simp]: "py_div a 0 = Inl ZeroDivisionError"
  by (simp add: py_div_def)

lemma py_div_error: "py_div a b = Inl e \<Longrightarrow> e = ZeroDivisionError"
  by (simp add: py_div_def split: if_splits)

text \<open>The power of a positive float is the real power.\<close>

lemma py_pow_pos [simp]: "0 < a \<Longrightarrow> py_pow (complex_of_real a) b = Inr (complex_of_real (a powr b))"
  by (simp add: py_pow_def atan2_def)

lemma py_pow_one [simp]: "py_pow 1 b = Inr 1"
  using py_pow_pos[of 1 b] by simp

text \<open>The power raises only at zero with a negative exponent.\<close>

lemma py_pow_total: "0 \<le> b \<Longrightarrow> \<exists>c. py_pow a b = Inr c"
  by (simp add: py_pow_def)

lemma py_pow_zero_negative [simp]: "b < 0 \<Longrightarrow> py_pow 0 b = Inl ZeroDivisionError"
  by (simp add: py_pow_def)

lemma py_pow_error: "py_pow a b = Inl e \<Longrightarrow> e = ZeroDivisionError"
  by (simp add: py_pow_def split: if_splits)

text \<open>The power of a negative float with a non-integer exponent is a complex number.\<close>

lemma py_pow_neg:
  "a < 0 \<Longrightarrow> b \<noteq> 0 \<Longrightarrow> py_pow (complex_of_real a) b = Inr (rcis ((- a) powr b) (pi * b))"
  by (simp add: py_pow_def atan2_def)

lemma ces_Z_positive:
  assumes "0 < k" "0 < h" "0 < alpha" "0 < phi" "alpha + phi < 1" "sigma \<noteq> 0"
  shows "ces_Z (complex_of_real k) (complex_of_real h) alpha phi sigma
           = Inr (complex_of_real (alpha * k powr ((sigma - 1) / sigma)
                  + phi * h powr ((sigma - 1) / sigma) + (1 - alpha - phi))) \<and>
         0 < alpha * k powr ((sigma - 1) / sigma) + phi * h powr ((sigma - 1) / sigma)
                  + (1 - alpha - phi)"
proof -
  have "0 < alpha * k powr ((sigma - 1) / sigma)" "0 < phi * h powr ((sigma - 1) / sigma)"
    using assms by simp_all
  then have "0 < alpha * k powr ((sigma - 1) / sigma) + phi * h powr ((sigma - 1) / sigma)
                  + (1 - alpha - phi)"
    using assms(5) by linarith
  then show ?thesis using assms by (simp add: ces_Z_def)
qed

text \<open>
  What the two CES functions return at a positive state: \<open>ht1\<close> adds the old value to
  the quotient, \<open>kt1\<close> divides the old value as well.
\<close>

lemma ces_map_value:
  assumes "0 < k" "0 < h" "0 < alpha" "0 < phi" "alpha + phi < 1"
    and "sigma \<noteq> 0" "sigma \<noteq> 1" "(1 + n) * (1 + g) \<noteq> 0"
  shows "kt1 (complex_of_real k) (complex_of_real h) sk alpha phi sigma n g delta =
           Inr (complex_of_real
             ((sk * (alpha * k powr ((sigma - 1) / sigma) + phi * h powr ((sigma - 1) / sigma)
                         + (1 - alpha - phi)) powr (sigma / (sigma - 1))
                 - (n + g + delta + n * g) * k + k) / ((1 + n) * (1 + g))))"
    and "ht1 (complex_of_real k) (complex_of_real h) sh alpha phi sigma n g delta =
           Inr (complex_of_real
             (h + (sh * (alpha * k powr ((sigma - 1) / sigma) + phi * h powr ((sigma - 1) / sigma)
                         + (1 - alpha - phi)) powr (sigma / (sigma - 1))
                 - (n + g + delta + n * g) * h) / ((1 + n) * (1 + g))))"
proof -
  define z where "z = alpha * k powr ((sigma - 1) / sigma) + phi * h powr ((sigma - 1) / sigma)
                         + (1 - alpha - phi)"
  have Z: "ces_Z (complex_of_real k) (complex_of_real h) alpha phi sigma = Inr (complex_of_real z)"
    and z: "0 < z"
    using ces_Z_positive[OF assms(1-6)] by (simp_all add: z_def)
  have e: "sigma - 1 \<noteq> 0" using assms(7) by simp
  show "kt1 (complex_of_real k) (complex_of_real h) sk alpha phi sigma n g delta =
           Inr (complex_of_real
             ((sk * (alpha * k powr ((sigma - 1) / sigma) + phi * h powr ((sigma - 1) / sigma)
                         + (1 - alpha - phi)) powr (sigma / (sigma - 1))
                 - (n + g + delta + n * g) * k + k) / ((1 + n) * (1 + g))))"
    unfolding z_def[symmetric] using assms(8) e z by (simp add: kt1_def Z)
  show "ht1 (complex_of_real k) (complex_of_real h) sh alpha phi sigma n g delta =
           Inr (complex_of_real
             (h + (sh * (alpha * k powr ((sigma - 1) / sigma) + phi * h powr ((sigma - 1) / sigma)
                         + (1 - alpha - phi)) powr (sigma / (sigma - 1))
                 - (n + g + delta + n * g) * h) / ((1 + n) * (1 + g))))"
    unfolding z_def[symmetric] using assms(8) e z by (simp add: ht1_def Z)
qed

subsection \<open>The loop, one iteration at a time\<close>

lemma py_get_last: "length xs = Suc i \<Longrightarrow> py_get xs (- 1) = Inr (xs ! i)"
  by (simp add: py_get_def)

lemma py_get_prev: "length xs = Suc i \<Longrightarrow> 1 \<le> i \<Longrightarrow> py_get xs (- 2) = Inr (xs ! (i - 1))"
  by (auto simp add: py_get_def nat_diff_distrib intro!: arg_cong[where f="\<lambda>j. xs ! j"])

lemma py_get_nat: "i < length xs \<Longrightarrow> py_get xs (int i) = Inr (xs ! i)"
  by (simp add: py_get_def)

lemma py_get_zero: "py_get (x # xs) 0 = Inr x"
  by (simp add: py_get_def)

declare while_loop.simps [simp del]

lemma while_loop_step:
  assumes "length ks = Suc i" "length hs = Suc i" "1 \<le> i"
  shows "while_loop tol M kf hf ks hs i =
     (if i < M then
        if settled tol ks hs i then Converged ks hs
        else if i = M - 1 then NotConverged ks hs
        else (case kf (ks ! i) (hs ! i) of Inl e \<Rightarrow> Raised e ks hs | Inr k' \<Rightarrow>
             (case hf (ks ! i) (hs ! i) of Inl e \<Rightarrow> Raised e (ks @ [k']) hs | Inr h' \<Rightarrow>
                while_loop tol M kf hf (ks @ [k']) (hs @ [h']) (Suc i)))
      else Raised UnboundLocalError ks hs)"
proof -
  have a: "py_get hs (- 1) = Inr (hs ! i)" "py_get ks (- 1) = Inr (ks ! i)"
    using assms by (simp_all add: py_get_last)
  have b: "py_get hs (- 2) = Inr (hs ! (i - 1))" "py_get ks (- 2) = Inr (ks ! (i - 1))"
    using assms by (simp_all add: py_get_prev)
  have c: "py_get ks (int i) = Inr (ks ! i)" "py_get hs (int i) = Inr (hs ! i)"
    "\<And>k'. py_get (ks @ [k']) (int i) = Inr (ks ! i)"
    using assms by (simp_all add: py_get_nat nth_append)
  show ?thesis
    by (subst while_loop.simps) (simp add: a b c settled_def cong: sum.case_cong)
qed

lemma settled_append:
  "j < length ks \<Longrightarrow> j < length hs \<Longrightarrow> settled tol (ks @ a) (hs @ b) j = settled tol ks hs j"
proof -
  assume a: "j < length ks" "j < length hs"
  then have "j - 1 < length ks" "j - 1 < length hs" by simp_all
  with a show ?thesis unfolding settled_def nth_append by simp
qed

lemma simulate_first:
  "simulate tol M kf hf k0 h0 =
     (case kf k0 h0 of Inl e \<Rightarrow> Raised e [k0] [h0] | Inr k1 \<Rightarrow>
     (case hf k0 h0 of Inl e \<Rightarrow> Raised e [k0, k1] [h0] | Inr h1 \<Rightarrow>
        while_loop tol M kf hf [k0, k1] [h0, h1] 1))"
  by (simp add: simulate_def py_get_zero split: sum.splits)


lemma while_loop_induct [consumes 3, case_names exit conv limit kfail hfail step]:
  assumes inv: "length ks = Suc i" "length hs = Suc i" "1 \<le> i"
    and exit: "\<And>ks hs i. length ks = Suc i \<Longrightarrow> length hs = Suc i \<Longrightarrow> 1 \<le> i \<Longrightarrow> \<not> i < M \<Longrightarrow>
       P ks hs i (Raised UnboundLocalError ks hs)"
    and conv: "\<And>ks hs i. length ks = Suc i \<Longrightarrow> length hs = Suc i \<Longrightarrow> 1 \<le> i \<Longrightarrow> i < M \<Longrightarrow>
       settled tol ks hs i \<Longrightarrow> P ks hs i (Converged ks hs)"
    and limit: "\<And>ks hs i. length ks = Suc i \<Longrightarrow> length hs = Suc i \<Longrightarrow> 1 \<le> i \<Longrightarrow> i < M \<Longrightarrow>
       \<not> settled tol ks hs i \<Longrightarrow> i = M - 1 \<Longrightarrow> P ks hs i (NotConverged ks hs)"
    and kfail: "\<And>ks hs i e. length ks = Suc i \<Longrightarrow> length hs = Suc i \<Longrightarrow> 1 \<le> i \<Longrightarrow> i < M \<Longrightarrow>
       \<not> settled tol ks hs i \<Longrightarrow> i \<noteq> M - 1 \<Longrightarrow> kf (ks ! i) (hs ! i) = Inl e \<Longrightarrow>
       P ks hs i (Raised e ks hs)"
    and hfail: "\<And>ks hs i k' e. length ks = Suc i \<Longrightarrow> length hs = Suc i \<Longrightarrow> 1 \<le> i \<Longrightarrow> i < M \<Longrightarrow>
       \<not> settled tol ks hs i \<Longrightarrow> i \<noteq> M - 1 \<Longrightarrow> kf (ks ! i) (hs ! i) = Inr k' \<Longrightarrow>
       hf (ks ! i) (hs ! i) = Inl e \<Longrightarrow> P ks hs i (Raised e (ks @ [k']) hs)"
    and step: "\<And>ks hs i k' h'. length ks = Suc i \<Longrightarrow> length hs = Suc i \<Longrightarrow> 1 \<le> i \<Longrightarrow> i < M \<Longrightarrow>
       \<not> settled tol ks hs i \<Longrightarrow> i \<noteq> M - 1 \<Longrightarrow> kf (ks ! i) (hs ! i) = Inr k' \<Longrightarrow>
       hf (ks ! i) (hs ! i) = Inr h' \<Longrightarrow>
       P (ks @ [k']) (hs @ [h']) (Suc i) (while_loop tol M kf hf (ks @ [k']) (hs @ [h']) (Suc i)) \<Longrightarrow>
       P ks hs i (while_loop tol M kf hf (ks @ [k']) (hs @ [h']) (Suc i))"
  shows "P ks hs i (while_loop tol M kf hf ks hs i)"
  using inv
proof (induction "M - i" arbitrary: i ks hs)
  case 0
  then have "\<not> i < M" by simp
  then show ?case using 0 exit by (simp add: while_loop_step)
next
  case (Suc d)
  then have iM: "i < M" by simp
  note inv = Suc.prems
  show ?case
  proof (cases "settled tol ks hs i")
    case True
    then show ?thesis using inv iM conv by (simp add: while_loop_step)
  next
    case ns: False
    show ?thesis
    proof (cases "i = M - 1")
      case True
      then show ?thesis using inv iM ns limit by (simp add: while_loop_step)
    next
      case nl: False
      show ?thesis
      proof (cases "kf (ks ! i) (hs ! i)")
        case (Inl e)
        then show ?thesis using inv iM ns nl kfail by (simp add: while_loop_step)
      next
        case k: (Inr k')
        show ?thesis
        proof (cases "hf (ks ! i) (hs ! i)")
          case (Inl e)
          then show ?thesis using inv iM ns nl k hfail by (simp add: while_loop_step)
        next
          case h: (Inr h')
          have eq: "while_loop tol M kf hf ks hs i
                    = while_loop tol M kf hf (ks @ [k']) (hs @ [h']) (Suc i)"
            using inv iM ns nl k h by (simp add: while_loop_step)
          have d: "d = M - Suc i" using Suc.hyps(2) by simp
          have "P (ks @ [k']) (hs @ [h']) (Suc i)
                  (while_loop tol M kf hf (ks @ [k']) (hs @ [h']) (Suc i))"
            by (rule Suc.hyps(1)[OF d]) (use inv in simp_all)
          then show ?thesis
            unfolding eq using step inv iM ns nl k h by blast
        qed
      qed
    qed
  qed
qed


lemma loop_grows:
  assumes "length ks = Suc i" "length hs = Suc i" "1 \<le> i"
  shows "length ks \<le> length (k_list (while_loop tol M kf hf ks hs i)) \<and>
         length hs \<le> length (h_list (while_loop tol M kf hf ks hs i))"
  using assms
  by (induction rule: while_loop_induct[where tol=tol and M=M and kf=kf and hf=hf]) simp_all

lemma loop_tolerance:
  assumes "length ks = Suc i" "length hs = Suc i" "1 \<le> i"
  shows "t2 \<le> t1 \<longrightarrow>
     length (k_list (while_loop t1 M kf hf ks hs i)) \<le> length (k_list (while_loop t2 M kf hf ks hs i)) \<and>
     length (h_list (while_loop t1 M kf hf ks hs i)) \<le> length (h_list (while_loop t2 M kf hf ks hs i)) \<and>
     (is_convergence_result (while_loop t2 M kf hf ks hs i) \<longrightarrow>
      is_convergence_result (while_loop t1 M kf hf ks hs i))"
  using assms
proof (induction rule: while_loop_induct[where tol=t2 and M=M and kf=kf and hf=hf])
  case (exit ks hs i)
  then show ?case by (simp add: while_loop_step)
next
  case (conv ks hs i)
  show ?case
  proof
    assume "t2 \<le> t1"
    with conv have "settled t1 ks hs i" by (auto simp: settled_def)
    with conv show "length (k_list (while_loop t1 M kf hf ks hs i)) \<le> length (k_list (Converged ks hs)) \<and>
     length (h_list (while_loop t1 M kf hf ks hs i)) \<le> length (h_list (Converged ks hs)) \<and>
     (is_convergence_result (Converged ks hs) \<longrightarrow>
      is_convergence_result (while_loop t1 M kf hf ks hs i))"
      by (simp add: while_loop_step)
  qed
next
  case (limit ks hs i)
  then show ?case by (simp add: while_loop_step)
next
  case (kfail ks hs i e)
  then show ?case by (simp add: while_loop_step)
next
  case (hfail ks hs i k' e)
  then show ?case by (simp add: while_loop_step)
next
  case (step ks hs i k' h')
  show ?case
  proof (cases "settled t1 ks hs i")
    case True
    have "length ks \<le> length (k_list (while_loop t2 M kf hf (ks @ [k']) (hs @ [h']) (Suc i)))"
         "length hs \<le> length (h_list (while_loop t2 M kf hf (ks @ [k']) (hs @ [h']) (Suc i)))"
      using loop_grows[of "ks @ [k']" "Suc i" "hs @ [h']" t2 M kf hf] step by simp_all
    with True step show ?thesis by (simp add: while_loop_step)
  next
    case False
    with step show ?thesis by (simp add: while_loop_step)
  qed
qed

subsection \<open>Runs from the initial state\<close>


lemma simulate_first_step:
  assumes "kf k0 h0 = Inr k1" "hf k0 h0 = Inr h1" "cmod (k1 - k0) < tol" "cmod (h1 - h0) < tol" "1 < M"
  shows "simulate tol M kf hf k0 h0 = Converged [k0, k1] [h0, h1]"
  using assms by (simp add: simulate_first while_loop_step[of "[k0, k1]" "Suc 0" "[h0, h1]"] settled_def)

lemma simulate_tolerance:
  assumes "t2 \<le> t1"
  shows "length (k_list (simulate t1 M kf hf k0 h0)) \<le> length (k_list (simulate t2 M kf hf k0 h0)) \<and>
     length (h_list (simulate t1 M kf hf k0 h0)) \<le> length (h_list (simulate t2 M kf hf k0 h0)) \<and>
     (is_convergence_result (simulate t2 M kf hf k0 h0) \<longrightarrow>
      is_convergence_result (simulate t1 M kf hf k0 h0))"
proof (cases "kf k0 h0")
  case (Inl e)
  then show ?thesis by (simp add: simulate_first)
next
  case k: (Inr k1)
  show ?thesis
  proof (cases "hf k0 h0")
    case (Inl e)
    then show ?thesis using k by (simp add: simulate_first)
  next
    case (Inr h1)
    then show ?thesis
      using k loop_tolerance[of "[k0, k1]" 1 "[h0, h1]" t2 t1 M kf hf] assms
      by (simp add: simulate_first)
  qed
qed

lemma simulate_at_least_two:
  assumes "is_convergence_result (simulate tol M kf hf k0 h0)"
  shows "2 \<le> length (k_list (simulate tol M kf hf k0 h0)) \<and>
         2 \<le> length (h_list (simulate tol M kf hf k0 h0))"
proof -
  obtain k1 h1 where r: "simulate tol M kf hf k0 h0 = while_loop tol M kf hf [k0, k1] [h0, h1] 1"
    using assms by (auto simp: simulate_first split: sum.splits)
  show ?thesis
    using loop_grows[of "[k0, k1]" 1 "[h0, h1]" tol M kf hf] r by simp
qed


lemma run_CES_at_fixed_point: "run_CES (1 / 100000) 10000 1 1 (327 / 2500) (113 / 1250) (1 / 3) (1 / 3) (3 / 2) (1 / 50) (1 / 50) (1 / 20)
   = Converged [1, 1] [1, 1]"
  by (simp add: run_CES_def simulate_first kt1_def ht1_def ces_Z_def
      while_loop_step[of "[1, 1]" "Suc 0" "[1, 1]"] settled_def)

subsection \<open>Raising maps, total maps and orbits\<close>

lemma loop_not_rejected:
  assumes "length ks = Suc i" "length hs = Suc i" "1 \<le> i"
  shows "\<not> is_rejected (while_loop tol M kf hf ks hs i)"
  using assms
  by (induction rule: while_loop_induct[where tol=tol and M=M and kf=kf and hf=hf]) simp_all

lemma simulate_not_rejected: "\<not> is_rejected (simulate tol M kf hf k0 h0)"
  using loop_not_rejected[of _ 1 _ tol M kf hf]
  by (simp add: simulate_first split: sum.splits)

lemma simulate_two_states:
  assumes "kf k0 h0 = Inr k1" "hf k0 h0 = Inr h1"
  shows "2 \<le> length (k_list (simulate tol M kf hf k0 h0))"
  using assms loop_grows[of "[k0, k1]" 1 "[h0, h1]" tol M kf hf]
  by (simp add: simulate_first)

lemma and_then_error:
  "and_then m f = Inl e \<Longrightarrow> m = Inl e \<or> (\<exists>x. m = Inr x \<and> f x = Inl e)"
  by (cases m) simp_all

text \<open>The only exception the four maps raise is ZeroDivisionError.\<close>

lemma ces_Z_error: "ces_Z k h alpha phi sigma = Inl e \<Longrightarrow> e = ZeroDivisionError"
  unfolding ces_Z_def
  by (auto dest!: and_then_error dest: py_div_error py_pow_error)

lemma map_errors:
  "kt_plus1_func k h alpha n g sh sk delta phi = Inl e \<Longrightarrow> e = ZeroDivisionError"
  "ht_plus1_func k h alpha n g sh sk delta phi = Inl e \<Longrightarrow> e = ZeroDivisionError"
  "kt1 k h sk alpha phi sigma n g delta = Inl e \<Longrightarrow> e = ZeroDivisionError"
  "ht1 k h sh alpha phi sigma n g delta = Inl e \<Longrightarrow> e = ZeroDivisionError"
  unfolding kt_plus1_func_def ht_plus1_func_def kt1_def ht1_def
  by (auto dest!: and_then_error dest: py_div_error py_pow_error ces_Z_error)


text \<open>So does the CES map for \<open>sigma > 1\<close>, where both of its exponents are positive.\<close>

lemma ces_map_total:
  assumes "(1 + n) * (1 + g) \<noteq> 0" and "1 < sigma"
  shows "\<exists>k' h'. kt1 k h sk alpha phi sigma n g delta = Inr k' \<and>
                 ht1 k h sh alpha phi sigma n g delta = Inr h'"
proof -
  have s: "sigma \<noteq> 0" "sigma - 1 \<noteq> 0" "0 \<le> (sigma - 1) / sigma" "0 \<le> sigma / (sigma - 1)"
    using assms(2) by simp_all
  obtain kp hp where p: "py_pow k ((sigma - 1) / sigma) = Inr kp" "py_pow h ((sigma - 1) / sigma) = Inr hp"
    using py_pow_total[OF s(3)] by blast
  define z where "z = complex_of_real alpha * kp + complex_of_real phi * hp
                       + complex_of_real (1 - alpha - phi)"
  have Z: "ces_Z k h alpha phi sigma = Inr z"
    using s p by (simp add: ces_Z_def z_def)
  obtain y where y: "py_pow z (sigma / (sigma - 1)) = Inr y"
    using py_pow_total[OF s(4)] by blast
  show ?thesis using assms(1) s(2) Z y by (simp add: kt1_def ht1_def)
qed

lemma loop_good:
  assumes "length ks = Suc i" "length hs = Suc i" "1 \<le> i"
    and pres: "\<And>k h. good k h \<Longrightarrow> \<exists>k' h'. kf k h = Inr k' \<and> hf k h = Inr h' \<and> good k' h'"
  shows "good (ks ! i) (hs ! i) \<longrightarrow> i < M \<longrightarrow>
     is_convergence_result (while_loop tol M kf hf ks hs i) \<and>
     length (k_list (while_loop tol M kf hf ks hs i)) \<le> M \<and>
     (while_loop tol M kf hf ks hs i = NotConverged (k_list (while_loop tol M kf hf ks hs i)) (h_list (while_loop tol M kf hf ks hs i))
        \<longrightarrow> length (k_list (while_loop tol M kf hf ks hs i)) = M)"
  using assms(1-3)
proof (induction rule: while_loop_induct[where tol=tol and M=M and kf=kf and hf=hf])
  case (kfail ks hs i e)
  then show ?case using pres[of "ks ! i" "hs ! i"] by auto
next
  case (hfail ks hs i k' e)
  then show ?case using pres[of "ks ! i" "hs ! i"] by auto
next
  case (step ks hs i k' h')
  show ?case
  proof (intro impI)
    assume g: "good (ks ! i) (hs ! i)" and "i < M"
    have "good k' h'" using pres[OF g] step by auto
    then have "good ((ks @ [k']) ! Suc i) ((hs @ [h']) ! Suc i)"
      using step(1,2) by (simp add: nth_append)
    moreover have "Suc i < M" using step by simp
    ultimately show "is_convergence_result (while_loop tol M kf hf (ks @ [k']) (hs @ [h']) (Suc i)) \<and>
     length (k_list (while_loop tol M kf hf (ks @ [k']) (hs @ [h']) (Suc i))) \<le> M \<and>
     (while_loop tol M kf hf (ks @ [k']) (hs @ [h']) (Suc i) = NotConverged (k_list (while_loop tol M kf hf (ks @ [k']) (hs @ [h']) (Suc i))) (h_list (while_loop tol M kf hf (ks @ [k']) (hs @ [h']) (Suc i)))
        \<longrightarrow> length (k_list (while_loop tol M kf hf (ks @ [k']) (hs @ [h']) (Suc i))) = M)"
      using step by blast
  qed
qed auto

lemma orbit_length: "orbit kf hf ks hs \<Longrightarrow> length hs = length ks \<and> ks \<noteq> []"
  by (induction kf hf ks hs rule: orbit.induct) auto

lemma orbit_snoc:
  "orbit kf hf ks hs \<Longrightarrow> kf (last ks) (last hs) = Inr k' \<Longrightarrow> hf (last ks) (last hs) = Inr h' \<Longrightarrow>
   orbit kf hf (ks @ [k']) (hs @ [h'])"
  by (induction kf hf ks hs rule: orbit.induct) auto

lemma loop_orbit:
  assumes "length ks = Suc i" "length hs = Suc i" "1 \<le> i"
  shows "orbit kf hf ks hs \<longrightarrow> is_convergence_result (while_loop tol M kf hf ks hs i) \<longrightarrow>
     orbit kf hf (k_list (while_loop tol M kf hf ks hs i)) (h_list (while_loop tol M kf hf ks hs i)) \<and>
     length (h_list (while_loop tol M kf hf ks hs i)) = length (k_list (while_loop tol M kf hf ks hs i)) \<and>
     hd (k_list (while_loop tol M kf hf ks hs i)) = hd ks \<and>
     hd (h_list (while_loop tol M kf hf ks hs i)) = hd hs"
  using assms
proof (induction rule: while_loop_induct[where tol=tol and M=M and kf=kf and hf=hf])
  case (step ks hs i k' h')
  have ne: "ks \<noteq> []" "hs \<noteq> []" using step(1,2) by auto
  have l: "last ks = ks ! i" "last hs = hs ! i"
    using last_conv_nth[OF ne(1)] last_conv_nth[OF ne(2)] step(1,2) by simp_all
  show ?case
  proof (intro impI)
    assume o: "orbit kf hf ks hs"
      and r: "is_convergence_result (while_loop tol M kf hf (ks @ [k']) (hs @ [h']) (Suc i))"
    have "orbit kf hf (ks @ [k']) (hs @ [h'])"
      using orbit_snoc[OF o] l step by simp
    with step r ne show "orbit kf hf (k_list (while_loop tol M kf hf (ks @ [k']) (hs @ [h']) (Suc i)))
        (h_list (while_loop tol M kf hf (ks @ [k']) (hs @ [h']) (Suc i))) \<and>
     length (h_list (while_loop tol M kf hf (ks @ [k']) (hs @ [h']) (Suc i))) =
       length (k_list (while_loop tol M kf hf (ks @ [k']) (hs @ [h']) (Suc i))) \<and>
     hd (k_list (while_loop tol M kf hf (ks @ [k']) (hs @ [h']) (Suc i))) = hd ks \<and>
     hd (h_list (while_loop tol M kf hf (ks @ [k']) (hs @ [h']) (Suc i))) = hd hs"
      by simp
  qed
qed auto

lemma orbit_snoc_iff:
  "ks \<noteq> [] \<Longrightarrow> length hs = length ks \<Longrightarrow>
   orbit kf hf (ks @ [k']) (hs @ [h']) \<longleftrightarrow>
     orbit kf hf ks hs \<and> kf (last ks) (last hs) = Inr k' \<and> hf (last ks) (last hs) = Inr h'"
  by (induction kf hf ks hs rule: orbit.induct) auto

text \<open>
  The loop reaches every orbit of the maps that starts at the initial state, has at
  least two states, fewer than \<open>M + 1\<close>, and no settled position before its last.
\<close>

lemma loop_reaches:
  assumes "orbit kf hf ks hs" and "length ks = Suc i" and "1 \<le> i" and "i < M"
    and "\<forall>j. 1 \<le> j \<and> j < i \<longrightarrow> \<not> settled tol ks hs j"
  shows "simulate tol M kf hf (hd ks) (hd hs) = while_loop tol M kf hf ks hs i"
  using assms
proof (induction i arbitrary: ks hs)
  case 0
  then show ?case by simp
next
  case (Suc i)
  have len: "length hs = length ks" using orbit_length[OF Suc.prems(1)] by simp
  obtain ks' k' where ks: "ks = ks' @ [k']"
    using Suc.prems(2) by (cases ks rule: rev_cases) auto
  obtain hs' h' where hs: "hs = hs' @ [h']"
    using Suc.prems(2) len by (cases hs rule: rev_cases) auto
  have l: "length ks' = Suc i" "length hs' = Suc i"
    using Suc.prems(2) len ks hs by simp_all
  then have ne: "ks' \<noteq> []" "hs' \<noteq> []" by auto
  have o: "orbit kf hf ks' hs'" and f: "kf (last ks') (last hs') = Inr k'"
    "hf (last ks') (last hs') = Inr h'"
    using Suc.prems(1) orbit_snoc_iff[of ks' hs' kf hf k' h'] ne l unfolding ks hs by simp_all
  have la: "last ks' = ks' ! i" "last hs' = hs' ! i"
    using last_conv_nth[OF ne(1)] last_conv_nth[OF ne(2)] l by simp_all
  show ?case
  proof (cases i)
    case 0
    then obtain k0 h0 where "ks' = [k0]" "hs' = [h0]"
      using l by (auto simp: length_Suc_conv)
    then show ?thesis using f unfolding ks hs 0 by (simp add: simulate_first)
  next
    case (Suc i')
    then have i1: "1 \<le> i" by simp
    have un: "\<forall>j. 1 \<le> j \<and> j < i \<longrightarrow> \<not> settled tol ks' hs' j"
    proof (intro allI impI)
      fix j assume j: "1 \<le> j \<and> j < i"
      then have "\<not> settled tol ks hs j" using Suc.prems(5) by simp
      then show "\<not> settled tol ks' hs' j"
        unfolding ks hs using j l by (simp add: settled_append)
    qed
    have "\<not> settled tol ks hs i" using Suc.prems(5) i1 by simp
    then have ns: "\<not> settled tol ks' hs' i"
      unfolding ks hs using l by (simp add: settled_append)
    have iM: "i < M" "i \<noteq> M - 1" using Suc.prems(4) by simp_all
    have "simulate tol M kf hf (hd ks') (hd hs') = while_loop tol M kf hf ks' hs' i"
      using Suc.IH[OF o l(1) i1 iM(1) un] .
    also have "\<dots> = while_loop tol M kf hf (ks' @ [k']) (hs' @ [h']) (Suc i)"
      using while_loop_step[OF l i1, of tol M kf hf] iM ns f la by simp
    finally show ?thesis unfolding ks hs using ne by simp
  qed
qed

text \<open>
  With maps that return a state at every state, and a bound of at least 2, a run ends
  with Converged or NotConverged, and its lists are the orbit of the initial state.
\<close>

lemma simulate_total:
  assumes total: "\<And>k h. \<exists>k' h'. kf k h = Inr k' \<and> hf k h = Inr h'" and M: "2 \<le> M"
  shows "is_convergence_result (simulate tol M kf hf k0 h0) \<and>
         2 \<le> length (k_list (simulate tol M kf hf k0 h0)) \<and>
         length (k_list (simulate tol M kf hf k0 h0)) \<le> M \<and>
         length (h_list (simulate tol M kf hf k0 h0)) = length (k_list (simulate tol M kf hf k0 h0)) \<and>
         hd (k_list (simulate tol M kf hf k0 h0)) = k0 \<and>
         hd (h_list (simulate tol M kf hf k0 h0)) = h0 \<and>
         orbit kf hf (k_list (simulate tol M kf hf k0 h0)) (h_list (simulate tol M kf hf k0 h0)) \<and>
         (simulate tol M kf hf k0 h0
            = NotConverged (k_list (simulate tol M kf hf k0 h0)) (h_list (simulate tol M kf hf k0 h0))
          \<longrightarrow> length (k_list (simulate tol M kf hf k0 h0)) = M)"
proof -
  define good where "good = (\<lambda>(k::complex) (h::complex). True)"
  have pres: "\<And>k h. good k h \<Longrightarrow> \<exists>k' h'. kf k h = Inr k' \<and> hf k h = Inr h' \<and> good k' h'"
    using total by (simp add: good_def)
  obtain k1 h1 where f: "kf k0 h0 = Inr k1" "hf k0 h0 = Inr h1"
    using total[of k0 h0] by blast
  define r where "r = while_loop tol M kf hf [k0, k1] [h0, h1] 1"
  have run: "simulate tol M kf hf k0 h0 = r"
    using f by (simp add: simulate_first r_def)
  have inv: "length [k0, k1] = Suc 1" "length [h0, h1] = Suc 1" "(1::nat) \<le> 1" by simp_all
  have A: "is_convergence_result r \<and> length (k_list r) \<le> M \<and>
           (r = NotConverged (k_list r) (h_list r) \<longrightarrow> length (k_list r) = M)"
    using loop_good[where good = good and tol = tol and M = M, OF inv pres] M
    by (simp add: r_def good_def)
  have o: "orbit kf hf [k0, k1] [h0, h1]" using f by simp
  have B: "orbit kf hf (k_list r) (h_list r) \<and> length (h_list r) = length (k_list r) \<and>
           hd (k_list r) = k0 \<and> hd (h_list r) = h0"
    using loop_orbit[where kf = kf and hf = hf and tol = tol and M = M, OF inv] o A
    by (simp add: r_def)
  have C: "2 \<le> length (k_list r)"
    using loop_grows[where kf = kf and hf = hf and tol = tol and M = M, OF inv(1,2,3)]
    by (simp add: r_def)
  show ?thesis unfolding run using A B C by simp
qed

text \<open>A run whose second state is not settled holds the third state.\<close>

lemma simulate_third_state:
  assumes "kf k0 h0 = Inr k1" "hf k0 h0 = Inr h1" "\<not> settled tol [k0, k1] [h0, h1] 1"
    and "2 < M" and "kf k1 h1 = Inr k2" "hf k1 h1 = Inr h2"
  shows "3 \<le> length (k_list (simulate tol M kf hf k0 h0))"
proof -
  have "simulate tol M kf hf k0 h0 = while_loop tol M kf hf [k0, k1] [h0, h1] (Suc 0)"
    using assms(1,2) by (simp add: simulate_first)
  also have "\<dots> = while_loop tol M kf hf ([k0, k1] @ [k2]) ([h0, h1] @ [h2]) (Suc (Suc 0))"
  proof -
    have "Suc 0 < M" "Suc 0 \<noteq> M - Suc 0" using assms(4) by simp_all
    then show ?thesis
      using assms(3,5,6) by (simp add: while_loop_step[of "[k0, k1]" "Suc 0" "[h0, h1]"])
  qed
  finally show ?thesis
    using loop_grows[of "[k0, k1] @ [k2]" "Suc (Suc 0)" "[h0, h1] @ [h2]" tol M kf hf] by simp
qed

subsection \<open>The closed form solves the steady-state equations\<close>

lemma scaled_sum:
  fixes e u s x :: real
  assumes "e \<noteq> 0"
  shows "e * ((u / e) * s + (1 / e) * x) = u * s + x"
  using assms by (simp add: field_simps)

lemma log_algebra:
  fixes Sh Sk C Lk Lh alpha phi E P :: real
  assumes E: "E \<noteq> 0" and p: "P \<noteq> 0" and EP: "E = P + alpha" and P: "P = phi - 1"
    and Lk: "Lk = (- phi / E) * Sh + (1 / E) * (P * Sk + C)"
    and Lh: "Lh = (1 / P) * (- alpha * Lk + C - Sh)"
  shows "Sk + alpha * Lk + phi * Lh = C + Lk" and "Sh + alpha * Lk + phi * Lh = C + Lh"
proof -
  have a: "E * Lk = - phi * Sh + (P * Sk + C)"
    unfolding Lk using E by (rule scaled_sum)
  have b: "P * Lh = - alpha * Lk + C - Sh"
    unfolding Lh using p by simp
  have "P * (Sk + alpha * Lk + phi * Lh - (C + Lk)) =
        P * Sk + (P * alpha - P) * Lk + phi * (P * Lh) - P * C"
    by (simp add: algebra_simps)
  also have "\<dots> = P * Sk + (P * alpha - P) * Lk + phi * (- alpha * Lk + C - Sh) - P * C"
    by (simp only: b)
  also have "\<dots> = (- phi * Sh + (P * Sk + C)) - E * Lk"
    unfolding EP P by (simp add: algebra_simps)
  also have "\<dots> = 0" using a by simp
  finally show "Sk + alpha * Lk + phi * Lh = C + Lk" using p by simp
  have "(Sh + alpha * Lk + phi * Lh) - (C + Lh) = P * Lh - (- alpha * Lk + C - Sh)"
    unfolding P by (simp add: algebra_simps)
  then show "Sh + alpha * Lk + phi * Lh = C + Lh" using b by simp
qed

lemma steady_state_solves:
  assumes v: "valid_parameters sk sh alpha phi n g delta"
  shows "\<exists>ks hs. 0 < ks \<and> 0 < hs \<and> steady_state sh phi alpha sk delta g n = Inr (complex_of_real ks, complex_of_real hs) \<and>
           sk * ks powr alpha * hs powr phi = (n + g + delta + n * g) * ks \<and>
           sh * ks powr alpha * hs powr phi = (n + g + delta + n * g) * hs"
proof -
  define c where "c = delta + g * n + g + n"
  define E where "E = phi + alpha - 1"
  define P where "P = phi - 1"
  define a where "a = sh powr (- phi / E)"
  define b where "b = sk powr P"
  define kS where "kS = a * (b * c) powr (1 / E)"
  define a' where "a' = kS powr (- alpha)"
  define b' where "b' = a' * c / sh"
  define hS where "hS = b' powr (1 / P)"
  have sk: "0 < sk" and sh: "0 < sh" and c: "0 < c" and E: "E \<noteq> 0" and P: "P \<noteq> 0"
    using v by (simp_all add: valid_parameters_def c_def E_def P_def algebra_simps)
  have cc: "n + g + delta + n * g = c" by (simp add: c_def algebra_simps)
  have a: "0 < a" using sh by (simp add: a_def)
  have b: "0 < b" using sk by (simp add: b_def)
  have bc: "0 < b * c" using b c by simp
  have "0 < (b * c) powr (1 / E)" using b c by simp
  then have kS: "0 < kS" using a unfolding kS_def by (rule mult_pos_pos[rotated])
  then have a': "0 < a'" by (simp add: a'_def)
  then have b': "0 < b'" using c sh by (simp add: b'_def)
  then have hS: "0 < hS" by (simp add: hS_def)
  have p1: "py_pow (complex_of_real sh) (- (phi / E)) = Inr (complex_of_real a)"
    using sh by (simp add: a_def)
  have p2: "py_pow (complex_of_real sk) P = Inr (complex_of_real b)"
    using sk by (simp add: b_def)
  have p3: "py_pow (complex_of_real b * complex_of_real c) (1 / E)
              = Inr (complex_of_real ((b * c) powr (1 / E)))"
    using py_pow_pos[OF bc, of "1 / E"] by simp
  have kval: "ktilstar_sol sh phi alpha sk delta g n = Inr (complex_of_real kS)"
    unfolding ktilstar_sol_def E_def[symmetric] P_def[symmetric] c_def[symmetric]
    using E by (simp add: p1 p2 p3 kS_def)
  have p4: "py_pow (complex_of_real kS) (- alpha) = Inr (complex_of_real a')"
    using kS by (simp add: a'_def)
  have p5: "py_pow (complex_of_real a' * complex_of_real c / complex_of_real sh) (1 / P)
              = Inr (complex_of_real hS)"
    using py_pow_pos[OF b', of "1 / P"] by (simp add: b'_def hS_def)
  have shne: "complex_of_real sh \<noteq> 0" using sh by simp
  have hval: "htilstar_sol sh phi alpha sk delta g n = Inr (complex_of_real hS)"
    unfolding htilstar_sol_def P_def[symmetric] c_def[symmetric]
    using P shne by (simp add: kval p4 p5)
  have ss: "steady_state sh phi alpha sk delta g n = Inr (complex_of_real kS, complex_of_real hS)"
    by (simp add: steady_state_def kval hval)
  have Lk: "ln kS = (- phi / E) * ln sh + (1 / E) * (P * ln sk + ln c)"
    using a bc b c
    by (simp add: kS_def ln_mult_pos a_def b_def)
  have Lh: "ln hS = (1 / P) * (- alpha * ln kS + ln c - ln sh)"
    using a' c sh
    by (simp add: hS_def b'_def ln_divide_pos ln_mult_pos a'_def)
  have EP: "E = P + alpha" and PP: "P = phi - 1" by (simp_all add: E_def P_def)
  note alg = log_algebra[OF E P EP PP Lk Lh]
  have prod: "\<And>s. 0 < s \<Longrightarrow> s * kS powr alpha * hS powr phi = exp (ln s + alpha * ln kS + phi * ln hS)"
    using kS hS by (simp add: powr_def exp_add)
  have "sk * kS powr alpha * hS powr phi = exp (ln c + ln kS)"
    using prod[OF sk] alg(1) by simp
  also have "\<dots> = c * kS" using c kS by (simp add: exp_add)
  finally have one: "sk * kS powr alpha * hS powr phi = c * kS" .
  have "sh * kS powr alpha * hS powr phi = exp (ln c + ln hS)"
    using prod[OF sh] alg(2) by simp
  also have "\<dots> = c * hS" using c hS by (simp add: exp_add)
  finally have two: "sh * kS powr alpha * hS powr phi = c * hS" .
  show ?thesis using kS hS ss one two unfolding cc by blast
qed

section \<open>The claims\<close>

subsection \<open>The transition maps\<close>

text \<open>
  C1. The claim: at positive states the CES map returns, in both coordinates, the old
  value plus the bracket divided by \<open>(1+n)(1+g)\<close>, the old value standing outside the
  division. \<open>ht1\<close> does so. \<open>kt1\<close> does not: its \<open>+tilkt\<close> stands inside the factor.
  At \<open>k = h = 1\<close>, \<open>s_K = 0.1\<close>, \<open>alpha = phi = 1/3\<close>, \<open>sigma = 1.5\<close>,
  \<open>n = g = 0.02\<close>, \<open>delta = 0.05\<close> the code returns \<open>2524/2601\<close> (about 0.9704), the
  claimed formula gives \<open>2625/2601\<close> (about 1.0092), and \<open>ht1\<close> with \<open>s_H = 0.15\<close>
  returns the claimed \<open>2750/2601\<close>.
\<close>

theorem kt1_adds_capital_inside_factor:
  "kt1 1 1 (1 / 10) (1 / 3) (1 / 3) (3 / 2) (1 / 50) (1 / 50) (1 / 20) = Inr (2524 / 2601) \<and>
   (1::real) + ((1 / 10) * (1 / 3 * 1 powr ((3 / 2 - 1) / (3 / 2)) + 1 / 3 * 1 powr ((3 / 2 - 1) / (3 / 2))
        + (1 - 1 / 3 - 1 / 3)) powr ((3 / 2) / (3 / 2 - 1))
      - (1 / 50 + 1 / 50 + 1 / 20 + 1 / 50 * (1 / 50)) * 1) / ((1 + 1 / 50) * (1 + 1 / 50)) = 2625 / 2601 \<and>
   ht1 1 1 (3 / 20) (1 / 3) (1 / 3) (3 / 2) (1 / 50) (1 / 50) (1 / 20) = Inr (2750 / 2601)"
  by (simp add: kt1_def ht1_def ces_Z_def)

text \<open>
  C7. The Cobb-Douglas map at a positive state: where \<open>(1+n)(1+g)\<close> is not zero it
  returns the old value plus the bracket divided by \<open>(1+n)(1+g)\<close>, in both coordinates;
  where \<open>(1+n)(1+g)\<close> is zero it raises ZeroDivisionError.
\<close>

theorem cobb_douglas_map_value:
  assumes "0 < k" and "0 < h"
  shows "kt_plus1_func (complex_of_real k) (complex_of_real h) alpha n g sh sk delta phi =
           (if (1 + n) * (1 + g) = 0 then Inl ZeroDivisionError
            else Inr (complex_of_real
                   (k + (sk * k powr alpha * h powr phi - (n + g + delta + n * g) * k)
                            / ((1 + n) * (1 + g))))) \<and>
         ht_plus1_func (complex_of_real k) (complex_of_real h) alpha n g sh sk delta phi =
           (if (1 + n) * (1 + g) = 0 then Inl ZeroDivisionError
            else Inr (complex_of_real
                   (h + (sh * k powr alpha * h powr phi - (n + g + delta + n * g) * h)
                            / ((1 + n) * (1 + g)))))"
  using assms by (simp add: kt_plus1_func_def ht_plus1_func_def)

theorem cobb_douglas_map_value_witness:
  "(0::real) < 1 \<and>
   kt_plus1_func 1 1 (1 / 3) (1 / 50) (1 / 50) (3 / 20) (1 / 10) (1 / 20) (1 / 3) = Inr (2625 / 2601) \<and>
   ht_plus1_func 1 1 (1 / 3) (1 / 50) (1 / 50) (3 / 20) (1 / 10) (1 / 20) (1 / 3) = Inr (2750 / 2601)"
  using cobb_douglas_map_value[of 1 1 "1 / 3" "1 / 50" "1 / 50" "3 / 20" "1 / 10" "1 / 20" "1 / 3"]
  by simp

text \<open>
  The claim as stated, for every valid parameter set, fails at \<open>n = -1\<close>, \<open>g = 0\<close>,
  \<open>delta = 2\<close>: the parameters satisfy the invariants and the map raises.
\<close>

theorem cobb_douglas_map_value_counterexample:
  "valid_parameters (1 / 10) (3 / 20) (1 / 3) (1 / 3) (- 1) 0 2 \<and>
   kt_plus1_func 1 1 (1 / 3) (- 1) 0 (3 / 20) (1 / 10) 2 (1 / 3) = Inl ZeroDivisionError \<and>
   ht_plus1_func 1 1 (1 / 3) (- 1) 0 (3 / 20) (1 / 10) 2 (1 / 3) = Inl ZeroDivisionError"
  by (simp add: valid_parameters_def kt_plus1_func_def ht_plus1_func_def)

text \<open>
  C5. The claim: at \<open>sigma = 1.0001\<close>, the standard calibration and \<open>k = h = 1\<close> the
  CES map and the Cobb-Douglas map differ by less than \<open>0.001\<close> in each coordinate.
  The human-capital coordinates are equal; the capital coordinates are \<open>2524/2601\<close>
  and \<open>2625/2601\<close>, which differ by \<open>101/2601\<close>, about \<open>0.0388\<close>.
\<close>

theorem ces_limit_capital_gap:
  "kt1 1 1 (1 / 10) (1 / 3) (1 / 3) (10001 / 10000) (1 / 50) (1 / 50) (1 / 20) = Inr (2524 / 2601) \<and>
   kt_plus1_func 1 1 (1 / 3) (1 / 50) (1 / 50) (3 / 20) (1 / 10) (1 / 20) (1 / 3) = Inr (2625 / 2601) \<and>
   \<not> \<bar>(2524 / 2601 :: real) - 2625 / 2601\<bar> < 1 / 1000 \<and>
   ht1 1 1 (3 / 20) (1 / 3) (1 / 3) (10001 / 10000) (1 / 50) (1 / 50) (1 / 20) = Inr (2750 / 2601) \<and>
   ht_plus1_func 1 1 (1 / 3) (1 / 50) (1 / 50) (3 / 20) (1 / 10) (1 / 20) (1 / 3) = Inr (2750 / 2601)"
  by (simp add: kt1_def ht1_def ces_Z_def kt_plus1_func_def ht_plus1_func_def)

subsection \<open>The convergence test\<close>



text \<open>
  C10. If the first application of the map moves both coordinates by less than
  \<open>0.00001\<close> in absolute value, \<open>interact_CD\<close> and \<open>interact_CES\<close> end with
  Converged and exactly the two states; and every run that ends with Converged or
  NotConverged holds at least two states.
\<close>

theorem first_step_settled_gives_two_states:
  "(sk + sh < 1 \<and> alpha + phi < 1 \<and> 0 < n + g + delta + n * g \<and>
    kt_plus1_func k0 h0 alpha n g sh sk delta phi = Inr k1 \<and>
    ht_plus1_func k0 h0 alpha n g sh sk delta phi = Inr h1 \<and>
    cmod (k1 - k0) < 1 / 100000 \<and> cmod (h1 - h0) < 1 / 100000
    \<longrightarrow> interact_CD k0 h0 sk sh alpha phi n g delta = Converged [k0, k1] [h0, h1]) \<and>
   (sk + sh < 1 \<and> alpha + phi < 1 \<and> n + g + delta \<noteq> 0 \<and>
    kt1 k0 h0 sk alpha phi sigma n g delta = Inr k1 \<and>
    ht1 k0 h0 sh alpha phi sigma n g delta = Inr h1 \<and>
    cmod (k1 - k0) < 1 / 100000 \<and> cmod (h1 - h0) < 1 / 100000
    \<longrightarrow> interact_CES k0 h0 sk sh alpha phi sigma n g delta = Converged [k0, k1] [h0, h1]) \<and>
   (is_convergence_result (interact_CD k0 h0 sk sh alpha phi n g delta)
    \<longrightarrow> 2 \<le> length (k_list (interact_CD k0 h0 sk sh alpha phi n g delta))) \<and>
   (is_convergence_result (interact_CES k0 h0 sk sh alpha phi sigma n g delta)
    \<longrightarrow> 2 \<le> length (k_list (interact_CES k0 h0 sk sh alpha phi sigma n g delta)))"
proof (intro conjI impI)
  assume "sk + sh < 1 \<and> alpha + phi < 1 \<and> 0 < n + g + delta + n * g \<and>
    kt_plus1_func k0 h0 alpha n g sh sk delta phi = Inr k1 \<and>
    ht_plus1_func k0 h0 alpha n g sh sk delta phi = Inr h1 \<and>
    cmod (k1 - k0) < 1 / 100000 \<and> cmod (h1 - h0) < 1 / 100000"
  then show "interact_CD k0 h0 sk sh alpha phi n g delta = Converged [k0, k1] [h0, h1]"
    by (simp add: interact_CD_def run_CD_def simulate_first_step)
next
  assume "sk + sh < 1 \<and> alpha + phi < 1 \<and> n + g + delta \<noteq> 0 \<and>
    kt1 k0 h0 sk alpha phi sigma n g delta = Inr k1 \<and>
    ht1 k0 h0 sh alpha phi sigma n g delta = Inr h1 \<and>
    cmod (k1 - k0) < 1 / 100000 \<and> cmod (h1 - h0) < 1 / 100000"
  then show "interact_CES k0 h0 sk sh alpha phi sigma n g delta = Converged [k0, k1] [h0, h1]"
    by (simp add: interact_CES_def run_CES_def simulate_first_step)
next
  assume "is_convergence_result (interact_CD k0 h0 sk sh alpha phi n g delta)"
  then show "2 \<le> length (k_list (interact_CD k0 h0 sk sh alpha phi n g delta))"
    using simulate_at_least_two
    by (auto simp: interact_CD_def run_CD_def split: if_splits)
next
  assume "is_convergence_result (interact_CES k0 h0 sk sh alpha phi sigma n g delta)"
  then show "2 \<le> length (k_list (interact_CES k0 h0 sk sh alpha phi sigma n g delta))"
    using simulate_at_least_two
    by (auto simp: interact_CES_def run_CES_def split: if_splits)
qed

theorem first_step_settled_gives_two_states_witness:
  "interact_CD 1 1 (113 / 1250) (113 / 1250) (1 / 3) (1 / 3) (1 / 50) (1 / 50) (1 / 20)
     = Converged [1, 1] [1, 1] \<and>
   interact_CES 1 1 (327 / 2500) (113 / 1250) (1 / 3) (1 / 3) (3 / 2) (1 / 50) (1 / 50) (1 / 20)
     = Converged [1, 1] [1, 1]"
proof -
  have a: "kt_plus1_func 1 1 (1 / 3) (1 / 50) (1 / 50) (113 / 1250) (113 / 1250) (1 / 20) (1 / 3) = Inr 1"
          "ht_plus1_func 1 1 (1 / 3) (1 / 50) (1 / 50) (113 / 1250) (113 / 1250) (1 / 20) (1 / 3) = Inr 1"
    by (simp_all add: kt_plus1_func_def ht_plus1_func_def)
  have b: "kt1 1 1 (327 / 2500) (1 / 3) (1 / 3) (3 / 2) (1 / 50) (1 / 50) (1 / 20) = Inr 1"
          "ht1 1 1 (113 / 1250) (1 / 3) (1 / 3) (3 / 2) (1 / 50) (1 / 50) (1 / 20) = Inr 1"
    by (simp_all add: kt1_def ht1_def ces_Z_def)
  show ?thesis
    using first_step_settled_gives_two_states[of "113 / 1250" "113 / 1250" "1 / 3" "1 / 3"
        "1 / 50" "1 / 50" "1 / 20" 1 1 1 1 "3 / 2"]
      first_step_settled_gives_two_states[of "327 / 2500" "113 / 1250" "1 / 3" "1 / 3"
        "1 / 50" "1 / 50" "1 / 20" 1 1 1 1 "3 / 2"] a b
    by simp
qed

subsection \<open>The tolerance\<close>

text \<open>
  C8. For fixed maps, initial state and bound, a run with the smaller tolerance ends
  with lists at least as long as a run with the larger tolerance, and where the run
  with the smaller tolerance ends with Converged or NotConverged, so does the other.
  The same holds for the two simulators with their parameter checks.
\<close>

theorem tighter_tolerance_not_shorter:
  assumes "0 < t2" and "t2 < t1"
  shows "length (k_list (simulate t1 M kf hf k0 h0)) \<le> length (k_list (simulate t2 M kf hf k0 h0)) \<and>
         length (h_list (simulate t1 M kf hf k0 h0)) \<le> length (h_list (simulate t2 M kf hf k0 h0)) \<and>
         (is_convergence_result (simulate t2 M kf hf k0 h0) \<longrightarrow>
          is_convergence_result (simulate t1 M kf hf k0 h0)) \<and>
         length (k_list (run_CD t1 M k0 h0 sk sh alpha phi n g delta))
           \<le> length (k_list (run_CD t2 M k0 h0 sk sh alpha phi n g delta)) \<and>
         length (k_list (run_CES t1 M k0 h0 sk sh alpha phi sigma n g delta))
           \<le> length (k_list (run_CES t2 M k0 h0 sk sh alpha phi sigma n g delta))"
proof -
  have le: "t2 \<le> t1" using assms by simp
  show ?thesis
    using simulate_tolerance[OF le, of M kf hf k0 h0]
      simulate_tolerance[OF le, of M "\<lambda>k h. kt_plus1_func k h alpha n g sh sk delta phi"
        "\<lambda>k h. ht_plus1_func k h alpha n g sh sk delta phi" k0 h0]
      simulate_tolerance[OF le, of M "\<lambda>k h. kt1 k h sk alpha phi sigma n g delta"
        "\<lambda>k h. ht1 k h sh alpha phi sigma n g delta" k0 h0]
    by (simp add: run_CD_def run_CES_def)
qed

theorem tighter_tolerance_not_shorter_witness:
  "(0::real) < 1 / 100000000 \<and> (1 / 100000000 :: real) < 1 / 1000 \<and>
   length (k_list (run_CD (1 / 1000) 10000 1 1 (1 / 10) (3 / 20) (1 / 3) (1 / 3) (1 / 50) (1 / 50) (1 / 20)))
     \<le> length (k_list (run_CD (1 / 100000000) 10000 1 1 (1 / 10) (3 / 20) (1 / 3) (1 / 3) (1 / 50) (1 / 50) (1 / 20)))"
  using tighter_tolerance_not_shorter[where ?t2.0 = "1 / 100000000" and ?t1.0 = "1 / 1000"
      and M = 10000 and ?k0.0 = 1 and ?h0.0 = 1 and sk = "1 / 10" and sh = "3 / 20"
      and alpha = "1 / 3" and phi = "1 / 3" and n = "1 / 50" and g = "1 / 50" and delta = "1 / 20"]
  by simp

subsection \<open>Parameter checks\<close>

text \<open>
  C3. What the two simulators reject before the first application of a map: a sum of
  the savings rates of at least 1 and a sum of the shares of at least 1, in both
  simulators, and \<open>n + g + delta + n g \<le> 0\<close> in the Cobb-Douglas simulator. A
  rejected call displays a warning and builds no list.
\<close>

theorem sums_too_large_rejected:
  "(1 \<le> sk + sh \<or> 1 \<le> alpha + phi \<or> n + g + delta + n * g \<le> 0
    \<longrightarrow> is_rejected (run_CD tol M k0 h0 sk sh alpha phi n g delta) \<and>
        k_list (run_CD tol M k0 h0 sk sh alpha phi n g delta) = [] \<and>
        h_list (run_CD tol M k0 h0 sk sh alpha phi n g delta) = []) \<and>
   (1 \<le> sk + sh \<or> 1 \<le> alpha + phi
    \<longrightarrow> is_rejected (run_CES tol M k0 h0 sk sh alpha phi sigma n g delta) \<and>
        k_list (run_CES tol M k0 h0 sk sh alpha phi sigma n g delta) = [] \<and>
        h_list (run_CES tol M k0 h0 sk sh alpha phi sigma n g delta) = [])"
  by (auto simp: run_CD_def run_CES_def)

theorem sums_too_large_rejected_witness:
  "is_rejected (interact_CD 1 1 (3 / 5) (1 / 2) (1 / 3) (1 / 3) (1 / 50) (1 / 50) (1 / 20)) \<and>
   is_rejected (interact_CES 1 1 (3 / 5) (1 / 2) (1 / 3) (1 / 3) (3 / 2) (1 / 50) (1 / 50) (1 / 20))"
  using sums_too_large_rejected[of "3 / 5" "1 / 2" "1 / 3" "1 / 3" "1 / 50" "1 / 50" "1 / 20"
      "1 / 100000" 10000 1 1 "3 / 2"]
  by (simp add: interact_CD_def interact_CES_def)

text \<open>
  The claim as stated, for every violation of the invariants and both simulators,
  fails twice. \<open>alpha = 0\<close> violates \<open>0 < alpha\<close> and \<open>interact_CD\<close> iterates.
  \<open>n = -0.5\<close>, \<open>g = 0\<close>, \<open>delta = 0.1\<close> gives \<open>n + g + delta + n g = -0.4\<close> and
  \<open>interact_CES\<close>, whose test is \<open>n + g + delta = 0\<close>, iterates.
\<close>

theorem invalid_parameters_iterated_counterexample:
  "\<not> valid_parameters (1 / 10) (3 / 20) 0 (1 / 3) (1 / 50) (1 / 50) (1 / 20) \<and>
   \<not> is_rejected (interact_CD 1 1 (1 / 10) (3 / 20) 0 (1 / 3) (1 / 50) (1 / 50) (1 / 20)) \<and>
   2 \<le> length (k_list (interact_CD 1 1 (1 / 10) (3 / 20) 0 (1 / 3) (1 / 50) (1 / 50) (1 / 20))) \<and>
   (- (1 / 2) :: real) + 0 + 1 / 10 + (- (1 / 2)) * 0 \<le> 0 \<and>
   \<not> is_rejected (interact_CES 1 1 (1 / 10) (3 / 20) (1 / 3) (1 / 3) (3 / 2) (- (1 / 2)) 0 (1 / 10)) \<and>
   2 \<le> length (k_list (interact_CES 1 1 (1 / 10) (3 / 20) (1 / 3) (1 / 3) (3 / 2) (- (1 / 2)) 0 (1 / 10)))"
proof -
  have a: "kt_plus1_func 1 1 0 (1 / 50) (1 / 50) (3 / 20) (1 / 10) (1 / 20) (1 / 3) = Inr (2625 / 2601)"
          "ht_plus1_func 1 1 0 (1 / 50) (1 / 50) (3 / 20) (1 / 10) (1 / 20) (1 / 3) = Inr (2750 / 2601)"
    by (simp_all add: kt_plus1_func_def ht_plus1_func_def)
  have b: "kt1 1 1 (1 / 10) (1 / 3) (1 / 3) (3 / 2) (- (1 / 2)) 0 (1 / 10) = Inr 3"
          "ht1 1 1 (3 / 20) (1 / 3) (1 / 3) (3 / 2) (- (1 / 2)) 0 (1 / 10) = Inr (21 / 10)"
    by (simp_all add: kt1_def ht1_def ces_Z_def)
  have A: "2 \<le> length (k_list (simulate (1 / 100000) 10000
      (\<lambda>k h. kt_plus1_func k h 0 (1 / 50) (1 / 50) (3 / 20) (1 / 10) (1 / 20) (1 / 3))
      (\<lambda>k h. ht_plus1_func k h 0 (1 / 50) (1 / 50) (3 / 20) (1 / 10) (1 / 20) (1 / 3)) 1 1))"
    by (rule simulate_two_states[where ?k1.0 = "2625 / 2601" and ?h1.0 = "2750 / 2601"])
      (simp_all add: a)
  have B: "2 \<le> length (k_list (simulate (1 / 100000) 10000
      (\<lambda>k h. kt1 k h (1 / 10) (1 / 3) (1 / 3) (3 / 2) (- (1 / 2)) 0 (1 / 10))
      (\<lambda>k h. ht1 k h (3 / 20) (1 / 3) (1 / 3) (3 / 2) (- (1 / 2)) 0 (1 / 10)) 1 1))"
    by (rule simulate_two_states[where ?k1.0 = 3 and ?h1.0 = "21 / 10"])
      (simp_all add: b)
  show ?thesis
    using A B
    by (simp add: interact_CD_def interact_CES_def run_CD_def run_CES_def valid_parameters_def
        simulate_not_rejected)
qed

subsection \<open>Termination and the trajectory\<close>




subsection \<open>The steady state\<close>

text \<open>
  C9. For valid parameters with \<open>(1+n)(1+g)\<close> not zero, the closed-form steady state
  is a pair of positive numbers and the Cobb-Douglas map returns it unchanged.
\<close>

theorem steady_state_is_fixed_point:
  assumes "valid_parameters sk sh alpha phi n g delta" and "(1 + n) * (1 + g) \<noteq> 0"
  shows "\<exists>ks hs. 0 < ks \<and> 0 < hs \<and>
           steady_state sh phi alpha sk delta g n = Inr (complex_of_real ks, complex_of_real hs) \<and>
           transition_map_CD (complex_of_real ks, complex_of_real hs) alpha n g sh sk delta phi
             = Inr (complex_of_real ks, complex_of_real hs)"
proof -
  obtain ks hs where p: "0 < ks" "0 < hs"
    and ss: "steady_state sh phi alpha sk delta g n = Inr (complex_of_real ks, complex_of_real hs)"
    and one: "sk * ks powr alpha * hs powr phi = (n + g + delta + n * g) * ks"
    and two: "sh * ks powr alpha * hs powr phi = (n + g + delta + n * g) * hs"
    using steady_state_solves[OF assms(1)] by blast
  have one': "complex_of_real sk * complex_of_real (ks powr alpha) * complex_of_real (hs powr phi)
               = complex_of_real (n + g + delta + n * g) * complex_of_real ks"
    using arg_cong[OF one, of complex_of_real] by simp
  have two': "complex_of_real sh * complex_of_real (ks powr alpha) * complex_of_real (hs powr phi)
               = complex_of_real (n + g + delta + n * g) * complex_of_real hs"
    using arg_cong[OF two, of complex_of_real] by simp
  have "kt_plus1_func (complex_of_real ks) (complex_of_real hs) alpha n g sh sk delta phi
          = Inr (complex_of_real ks)"
    using p assms(2) by (simp add: kt_plus1_func_def one' del: of_real_add of_real_mult)
  moreover have "ht_plus1_func (complex_of_real ks) (complex_of_real hs) alpha n g sh sk delta phi
          = Inr (complex_of_real hs)"
    using p assms(2) by (simp add: ht_plus1_func_def two' del: of_real_add of_real_mult)
  ultimately have "transition_map_CD (complex_of_real ks, complex_of_real hs) alpha n g sh sk delta phi
          = Inr (complex_of_real ks, complex_of_real hs)"
    by (simp add: transition_map_CD_def)
  with p ss show ?thesis by blast
qed

theorem steady_state_is_fixed_point_witness:
  "valid_parameters (1 / 10) (3 / 20) (1 / 3) (1 / 3) (1 / 50) (1 / 50) (1 / 20) \<and>
   (\<exists>ks hs. 0 < ks \<and> 0 < hs \<and>
      steady_state (3 / 20) (1 / 3) (1 / 3) (1 / 10) (1 / 20) (1 / 50) (1 / 50)
        = Inr (complex_of_real ks, complex_of_real hs) \<and>
      transition_map_CD (complex_of_real ks, complex_of_real hs)
          (1 / 3) (1 / 50) (1 / 50) (3 / 20) (1 / 10) (1 / 20) (1 / 3)
        = Inr (complex_of_real ks, complex_of_real hs))"
proof -
  have v: "valid_parameters (1 / 10) (3 / 20) (1 / 3) (1 / 3) (1 / 50) (1 / 50) (1 / 20)"
    by (simp add: valid_parameters_def)
  have d: "(1 + 1 / 50) * (1 + 1 / 50) \<noteq> (0::real)" by simp
  show ?thesis using v steady_state_is_fixed_point[OF v d] by simp
qed

text \<open>
  The claim as stated, for every valid parameter set, fails at \<open>n = -1\<close>, \<open>g = 0\<close>,
  \<open>delta = 2\<close>: the steady state is defined and the map raises at it.
\<close>

theorem steady_state_zero_division_counterexample:
  "valid_parameters (1 / 10) (3 / 20) (1 / 3) (1 / 3) (- 1) 0 2 \<and>
   \<not> isl (steady_state (3 / 20) (1 / 3) (1 / 3) (1 / 10) 2 0 (- 1)) \<and>
   transition_map_CD (projr (steady_state (3 / 20) (1 / 3) (1 / 3) (1 / 10) 2 0 (- 1)))
      (1 / 3) (- 1) 0 (3 / 20) (1 / 10) 2 (1 / 3) = Inl ZeroDivisionError"
proof -
  have v: "valid_parameters (1 / 10) (3 / 20) (1 / 3) (1 / 3) (- 1) 0 2"
    by (simp add: valid_parameters_def)
  have "\<not> isl (steady_state (3 / 20) (1 / 3) (1 / 3) (1 / 10) 2 0 (- 1))"
    using steady_state_solves[OF v] by auto
  moreover have "\<And>s. transition_map_CD s (1 / 3) (- 1) 0 (3 / 20) (1 / 10) 2 (1 / 3) = Inl ZeroDivisionError"
    by (simp add: transition_map_CD_def kt_plus1_func_def)
  ultimately show ?thesis using v by simp
qed

subsection \<open>Exceptions\<close>

text \<open>
  C2. If an operation of a map is undefined at some iteration, the run ends there with
  the exception and without a convergence result: whenever the lists so far are an
  orbit of the maps from the initial state, no position of them is settled, another
  iteration is due, and a map raises at their last state, the run ends with Raised,
  that exception and the lists as they stand. The only exception the four maps of the
  notebook raise is Python's ZeroDivisionError, which carries neither the state nor
  the iteration.
\<close>

theorem raising_map_ends_run:
  assumes "orbit kf hf ks hs" and "length ks = 1 \<or> length ks < M"
    and "\<forall>j. 1 \<le> j \<and> j < length ks \<longrightarrow> \<not> settled tol ks hs j"
  shows "(kf (last ks) (last hs) = Inl e \<longrightarrow>
            simulate tol M kf hf (hd ks) (hd hs) = Raised e ks hs \<and>
            \<not> is_convergence_result (simulate tol M kf hf (hd ks) (hd hs))) \<and>
         (kf (last ks) (last hs) = Inr k' \<and> hf (last ks) (last hs) = Inl e \<longrightarrow>
            simulate tol M kf hf (hd ks) (hd hs) = Raised e (ks @ [k']) hs \<and>
            \<not> is_convergence_result (simulate tol M kf hf (hd ks) (hd hs))) \<and>
         (kt_plus1_func k h alpha n g sh sk delta phi = Inl e' \<longrightarrow> e' = ZeroDivisionError) \<and>
         (ht_plus1_func k h alpha n g sh sk delta phi = Inl e' \<longrightarrow> e' = ZeroDivisionError) \<and>
         (kt1 k h sk alpha phi sigma n g delta = Inl e' \<longrightarrow> e' = ZeroDivisionError) \<and>
         (ht1 k h sh alpha phi sigma n g delta = Inl e' \<longrightarrow> e' = ZeroDivisionError)"
proof -
  have len: "length hs = length ks" and ne: "ks \<noteq> []"
    using orbit_length[OF assms(1)] by simp_all
  then have neh: "hs \<noteq> []" by auto
  have run: "(kf (last ks) (last hs) = Inl e \<longrightarrow>
               simulate tol M kf hf (hd ks) (hd hs) = Raised e ks hs) \<and>
             (kf (last ks) (last hs) = Inr k' \<and> hf (last ks) (last hs) = Inl e \<longrightarrow>
               simulate tol M kf hf (hd ks) (hd hs) = Raised e (ks @ [k']) hs)"
  proof (cases "length ks = 1")
    case True
    then obtain k0 h0 where "ks = [k0]" "hs = [h0]"
      using len by (auto simp: length_Suc_conv)
    then show ?thesis by (simp add: simulate_first)
  next
    case False
    have "length ks \<noteq> 0" using ne by simp
    with False have "2 \<le> length ks" by linarith
    then have "length ks = Suc (length ks - 1)" "1 \<le> length ks - 1" by linarith+
    then obtain i where i: "length ks = Suc i" "1 \<le> i" by blast
    have iM: "i < M" "i \<noteq> M - 1" using assms(2) False i by simp_all
    have un: "\<forall>j. 1 \<le> j \<and> j < i \<longrightarrow> \<not> settled tol ks hs j"
      using assms(3) i by simp
    have ns: "\<not> settled tol ks hs i" using assms(3) i by simp
    have la: "last ks = ks ! i" "last hs = hs ! i"
      using last_conv_nth[OF ne] last_conv_nth[OF neh] i len by simp_all
    have "simulate tol M kf hf (hd ks) (hd hs) = while_loop tol M kf hf ks hs i"
      using loop_reaches[OF assms(1) i iM(1) un] .
    then show ?thesis
      using while_loop_step[of ks i hs tol M kf hf] i len iM ns la by simp
  qed
  then show ?thesis using map_errors by auto
qed

text \<open>
  In the CES simulator with \<open>sigma = 0.5\<close>, \<open>n = 0.05\<close>, \<open>g = 0\<close>, \<open>delta = 1\<close>,
  \<open>s_K = 0.05\<close> and \<open>s_H = 0.15\<close> the first application takes the state \<open>(1, 1)\<close> to
  \<open>(0, 1/7)\<close>; at iteration 1 the map raises 0 to the power \<open>-1\<close>.
\<close>

theorem raising_map_ends_run_witness:
  "kt1 0 (1 / 7) (1 / 20) (1 / 3) (1 / 3) (1 / 2) (1 / 20) 0 1 = Inl ZeroDivisionError \<and>
   interact_CES 1 1 (1 / 20) (3 / 20) (1 / 3) (1 / 3) (1 / 2) (1 / 20) 0 1
     = Raised ZeroDivisionError [1, 0] [1, 1 / 7] \<and>
   \<not> is_convergence_result
        (interact_CES 1 1 (1 / 20) (3 / 20) (1 / 3) (1 / 3) (1 / 2) (1 / 20) 0 1)"
proof -
  define kf where "kf = (\<lambda>k h. kt1 k h (1 / 20) (1 / 3) (1 / 3) (1 / 2) (1 / 20) 0 1)"
  define hf where "hf = (\<lambda>k h. ht1 k h (3 / 20) (1 / 3) (1 / 3) (1 / 2) (1 / 20) 0 1)"
  have a: "kf 1 1 = Inr 0" "hf 1 1 = Inr (1 / 7)"
    by (simp_all add: kf_def hf_def kt1_def ht1_def ces_Z_def)
  have b: "kf 0 (1 / 7) = Inl ZeroDivisionError"
    by (simp add: kf_def kt1_def ces_Z_def)
  have o: "orbit kf hf [1, 0] [1, 1 / 7]" using a by simp
  have l: "length [1, 0 :: complex] = 1 \<or> length [1, 0 :: complex] < 10000" by simp
  have u: "\<forall>j. 1 \<le> j \<and> j < length [1, 0 :: complex] \<longrightarrow> \<not> settled (1 / 100000) [1, 0] [1, 1 / 7] j"
    by (auto simp: settled_def less_Suc_eq)
  have r: "interact_CES 1 1 (1 / 20) (3 / 20) (1 / 3) (1 / 3) (1 / 2) (1 / 20) 0 1
             = simulate (1 / 100000) 10000 kf hf 1 1"
    by (simp add: interact_CES_def run_CES_def kf_def hf_def)
  show ?thesis
    using raising_map_ends_run[OF o l u, where e = ZeroDivisionError] b
    by (simp add: r) (simp add: kf_def)
qed

text \<open>
  The claim as stated fails on its own example and on the exception. In the CES
  simulator with \<open>sigma = 1.5\<close>, \<open>n = g = 1\<close>, \<open>delta = 0\<close>, \<open>s_K = 0.1\<close> and
  \<open>s_H = 0.15\<close> the state \<open>(1, 1)\<close> goes to \<open>(-19/40, 23/80)\<close>; at iteration 1 the map
  raises the negative \<open>-19/40\<close> to the power \<open>1/3\<close>, the power is a complex number and
  not an exception, and the run goes on to Converged or NotConverged. With
  \<open>sigma = 1\<close> the first application divides by zero, and what is raised is
  ZeroDivisionError.
\<close>

theorem negative_base_run_goes_on_counterexample:
  "kt1 1 1 (1 / 10) (1 / 3) (1 / 3) (3 / 2) 1 1 0 = Inr (- (19 / 40)) \<and>
   py_pow (- (19 / 40)) ((3 / 2 - 1) / (3 / 2)) = Inr (rcis ((19 / 40) powr (1 / 3)) (pi / 3)) \<and>
   is_convergence_result (interact_CES 1 1 (1 / 10) (3 / 20) (1 / 3) (1 / 3) (3 / 2) 1 1 0) \<and>
   3 \<le> length (k_list (interact_CES 1 1 (1 / 10) (3 / 20) (1 / 3) (1 / 3) (3 / 2) 1 1 0)) \<and>
   interact_CES 1 1 (1 / 10) (3 / 20) (1 / 3) (1 / 3) 1 (1 / 50) (1 / 50) (1 / 20)
     = Raised ZeroDivisionError [1] [1]"
proof -
  define kf where "kf = (\<lambda>k h. kt1 k h (1 / 10) (1 / 3) (1 / 3) (3 / 2) 1 1 0)"
  define hf where "hf = (\<lambda>k h. ht1 k h (3 / 20) (1 / 3) (1 / 3) (3 / 2) 1 1 0)"
  have a: "kf 1 1 = Inr (- (19 / 40))" "hf 1 1 = Inr (23 / 80)"
    by (simp_all add: kf_def hf_def kt1_def ht1_def ces_Z_def)
  have p: "py_pow (- (19 / 40)) ((3 / 2 - 1) / (3 / 2)) = Inr (rcis ((19 / 40) powr (1 / 3)) (pi / 3))"
    using py_pow_neg[of "- (19 / 40)" "1 / 3"] by simp
  have d: "(1 + 1) * (1 + 1) \<noteq> (0::real)" "(1::real) < 3 / 2" by simp_all
  have total: "\<And>k h. \<exists>k' h'. kf k h = Inr k' \<and> hf k h = Inr h'"
    using ces_map_total[OF d] by (simp add: kf_def hf_def)
  obtain k2 h2 where c: "kf (- (19 / 40)) (23 / 80) = Inr k2" "hf (- (19 / 40)) (23 / 80) = Inr h2"
    using total by blast
  have ns: "\<not> settled (1 / 100000) [1, - (19 / 40)] [1, 23 / 80] 1"
    by (simp add: settled_def norm_minus_commute)
  have r: "interact_CES 1 1 (1 / 10) (3 / 20) (1 / 3) (1 / 3) (3 / 2) 1 1 0
             = simulate (1 / 100000) 10000 kf hf 1 1"
    by (simp add: interact_CES_def run_CES_def kf_def hf_def)
  have A: "is_convergence_result (simulate (1 / 100000) 10000 kf hf 1 1)"
    using simulate_total[where kf = kf and hf = hf and M = 10000, OF total] by simp
  have B: "3 \<le> length (k_list (simulate (1 / 100000) 10000 kf hf 1 1))"
    by (rule simulate_third_state[OF a ns _ c]) simp
  have z: "interact_CES 1 1 (1 / 10) (3 / 20) (1 / 3) (1 / 3) 1 (1 / 50) (1 / 50) (1 / 20)
             = Raised ZeroDivisionError [1] [1]"
    by (simp add: interact_CES_def run_CES_def simulate_first kt1_def ces_Z_def)
  show ?thesis using a(1) p A B z unfolding r by (simp add: kf_def)
qed

end
